theory Spec2Isabelle
  imports Complex_Main
begin

section \<open>MolStat: histograms, simulators and simulator models\<close>

text \<open>
  A shallow embedding of the histogram accumulator (\<^verbatim>\<open>histogram.cc\<close>), of the simulator
  (\<^verbatim>\<open>simulator.cc\<close>) and of the model factory (\<^verbatim>\<open>simulate_model.h\<close>) of MolStat.
  A C++ \<^verbatim>\<open>double\<close> is a \<^typ>\<open>real\<close>: the values are the finite doubles, on which the
  comparisons of the code are the comparisons of the reals; infinities and NaN are outside
  the model. A \<^verbatim>\<open>std::size_t\<close> is a \<^typ>\<open>nat\<close>, with the wrap-around written out where
  the code multiplies. Every \<^verbatim>\<open>throw\<close> is a value of type \<open>error\<close>.
\<close>

subsection \<open>Exceptions\<close>

datatype error =
    CannotAddAfterBinning      \<comment> \<open>\<^verbatim>\<open>std::runtime_error\<close>, \<^verbatim>\<open>add_data\<close>\<close>
  | IncorrectDimensionality    \<comment> \<open>\<^verbatim>\<open>std::invalid_argument\<close>, \<^verbatim>\<open>add_data\<close>\<close>
  | AlreadyBinned              \<comment> \<open>\<^verbatim>\<open>std::runtime_error\<close>, \<^verbatim>\<open>bin_data\<close>\<close>
  | IncorrectNumberOfStyles    \<comment> \<open>\<^verbatim>\<open>std::invalid_argument\<close>, \<^verbatim>\<open>bin_data\<close>\<close>
  | NoBinningStyle nat         \<comment> \<open>\<^verbatim>\<open>std::runtime_error\<close>, with the dimension\<close>
  | NoBins                     \<comment> \<open>\<^verbatim>\<open>std::runtime_error\<close>, fewer than 1 bin\<close>
  | UnableToBin nat            \<comment> \<open>\<^verbatim>\<open>std::runtime_error\<close>, with the dimension\<close>
  | ObservableIndexOutOfRange  \<comment> \<open>\<^verbatim>\<open>std::out_of_range\<close>, \<^verbatim>\<open>setObservable\<close>\<close>
  | NoObservables
  | IncompatibleObservable
  | NoObservableProduced
  | MissingDistribution
  | NoSubmodels
  | NotCompositeSimulateModel
  | IncompatibleSubmodel

subsection \<open>Binning styles\<close>

text \<open>
  The abstract class \<^verbatim>\<open>BinStyle\<close>: the number of bins and the three functions a style
  implements. The class itself is declared in \<^verbatim>\<open>bin_style.h\<close>; \<^verbatim>\<open>histogram.cc\<close> uses the
  member \<^verbatim>\<open>nbins\<close> and the functions \<^verbatim>\<open>mask\<close> and \<^verbatim>\<open>invmask\<close>.
\<close>

record BinStyle =
  nbins :: nat
  mask :: "real \<Rightarrow> real"
  invmask :: "real \<Rightarrow> real"
  dmaskdx :: "real \<Rightarrow> real"

text \<open>
  Modelled from the spec: the two styles \<^verbatim>\<open>BinLinear\<close> and \<^verbatim>\<open>BinLog\<close>, whose sources
  (\<^verbatim>\<open>bin_linear.cc\<close>, \<^verbatim>\<open>bin_log.cc\<close>) are not among the files at hand. The linear mask is
  the identity; the logarithmic mask is the logarithm to the base \<open>b\<close>, its inverse the power
  of \<open>b\<close>, its derivative \<open>1 / (x ln b)\<close>.
\<close>

definition BinLinear :: "nat \<Rightarrow> BinStyle" where
  "BinLinear n = \<lparr>nbins = n, mask = (\<lambda>x. x), invmask = (\<lambda>u. u), dmaskdx = (\<lambda>x. 1)\<rparr>"

definition BinLog :: "nat \<Rightarrow> real \<Rightarrow> BinStyle" where
  "BinLog n b = \<lparr>nbins = n, mask = (\<lambda>x. log b x), invmask = (\<lambda>u. b powr u),
     dmaskdx = (\<lambda>x. 1 / (x * ln b))\<rparr>"

subsection \<open>The histogram\<close>

text \<open>\<^verbatim>\<open>std::numeric_limits<double>::max()\<close> and \<^verbatim>\<open>lowest()\<close> of an IEEE 754 double.\<close>

definition DBL_MAX :: real where
  "DBL_MAX = 2 ^ 1024 - 2 ^ 971"

definition DBL_LOWEST :: real where
  "DBL_LOWEST = - DBL_MAX"

text \<open>\<^verbatim>\<open>std::size_t\<close> of an LP64 platform: the product of the bin numbers wraps at \<open>2^64\<close>.\<close>

definition SIZE_MODULUS :: nat where
  "SIZE_MODULUS = 2 ^ 64"

text \<open>
  The members of \<^verbatim>\<open>Histogram\<close>. \<^verbatim>\<open>data\<close> is a \<^verbatim>\<open>std::forward_list\<close> that grows at the
  front; an element of \<^verbatim>\<open>extremes\<close> is the pair (minimum, maximum) of one dimension.
\<close>

record Histogram =
  haveBinned :: bool
  ndim :: nat
  data :: "real list list"
  extremes :: "(real \<times> real) list"
  bin_value :: "real list list"
  binned_data :: "real list"

definition Histogram :: "nat \<Rightarrow> Histogram" where
  "Histogram n = \<lparr>haveBinned = False, ndim = n, data = [],
     extremes = replicate n (DBL_MAX, DBL_LOWEST), bin_value = [], binned_data = []\<rparr>"

text \<open>One round of the loop of \<^verbatim>\<open>add_data\<close> that checks the limits of dimension \<open>j\<close>.\<close>

definition check_limit :: "real list \<Rightarrow> nat \<Rightarrow> (real \<times> real) list \<Rightarrow> (real \<times> real) list" where
  "check_limit v j ex =
     (let ex1 = (if v ! j < fst (ex ! j) then ex[j := (v ! j, snd (ex ! j))] else ex)
      in if v ! j > snd (ex1 ! j) then ex1[j := (fst (ex1 ! j), v ! j)] else ex1)"

definition add_data :: "Histogram \<Rightarrow> real list \<Rightarrow> error + Histogram" where
  "add_data h v =
     (if haveBinned h then Inl CannotAddAfterBinning
      else if length v \<noteq> ndim h then Inl IncorrectDimensionality
      else Inr (h\<lparr>extremes := fold (check_limit v) [0..<ndim h] (extremes h),
                  data := v # data h\<rparr>))"

text \<open>
  \<^verbatim>\<open>bin_values\<close>: the value of bin \<open>j\<close> is the average of the unmasked lower and upper
  bounds of the bin.
\<close>

definition bin_values :: "real \<Rightarrow> real \<Rightarrow> real \<Rightarrow> BinStyle \<Rightarrow> real list" where
  "bin_values dmin dmax dwidth bstyle =
     map (\<lambda>j. let lower = invmask bstyle (dmin + real j * dwidth);
                  upper = invmask bstyle (dmin + real (j + 1) * dwidth)
              in 0.5 * (lower + upper))
         [0..<nbins bstyle]"

text \<open>
  The first loop of \<^verbatim>\<open>bin_data\<close>, over the dimensions still to check: a null style, a
  style with no bin and a dimension without a range of values that asks for more than one
  bin throw; \<^verbatim>\<open>total_bins\<close> is multiplied up.
\<close>

fun check_styles ::
  "BinStyle option list \<Rightarrow> (real \<times> real) list \<Rightarrow> nat list \<Rightarrow> nat \<Rightarrow> error + nat" where
  "check_styles binstyles ex [] total_bins = Inr total_bins"
| "check_styles binstyles ex (j # js) total_bins =
     (case binstyles ! j of
        None \<Rightarrow> Inl (NoBinningStyle j)
      | Some b \<Rightarrow>
          if nbins b = 0 then Inl NoBins
          else if fst (ex ! j) = snd (ex ! j) \<and> nbins b \<noteq> 1 then Inl (UnableToBin j)
          else check_styles binstyles ex js ((total_bins * nbins b) mod SIZE_MODULUS))"

text \<open>The bounds of dimension \<open>j\<close> in masked coordinates: minimum, maximum, bin width.\<close>

definition bounds :: "BinStyle \<Rightarrow> real \<times> real \<Rightarrow> real \<times> real \<times> real" where
  "bounds b e =
     (let b0 = mask b (fst e); b1 = mask b (snd e)
      in (b0, b1, (b1 - b0) / real (nbins b)))"

definition bin_data :: "Histogram \<Rightarrow> BinStyle option list \<Rightarrow> error + Histogram" where
  "bin_data h binstyles =
     (if haveBinned h then Inl AlreadyBinned
      else if length binstyles \<noteq> ndim h then Inl IncorrectNumberOfStyles
      else case check_styles binstyles (extremes h) [0..<ndim h] 1 of
             Inl e \<Rightarrow> Inl e
           | Inr total_bins \<Rightarrow>
               Inr (h\<lparr>bin_value :=
                          map (\<lambda>j. let b = the (binstyles ! j);
                                       (b0, b1, b2) = bounds b (extremes h ! j)
                                   in bin_values b0 b1 b2 b)
                              [0..<ndim h],
                        binned_data := replicate total_bins 0\<rparr>))"

text \<open>A sequence of calls of \<^verbatim>\<open>add_data\<close>, which stops at the first exception.\<close>

fun add_all :: "Histogram \<Rightarrow> real list list \<Rightarrow> error + Histogram" where
  "add_all h [] = Inr h"
| "add_all h (v # vs) = (case add_data h v of Inl e \<Rightarrow> Inl e | Inr h' \<Rightarrow> add_all h' vs)"

subsection \<open>The simulator\<close>

text \<open>
  An \<^verbatim>\<open>ObservableFunction\<close> calculates an observable from a set of model parameters; it
  may throw (\<^verbatim>\<open>NoObservableProduced\<close>, by its documentation) instead of returning a value.
\<close>

type_synonym ObservableFunction = "real list \<Rightarrow> error + real"

text \<open>
  The two member functions of \<^verbatim>\<open>SimulateModel\<close> that the simulator calls. Their definitions
  (\<^verbatim>\<open>simulate_model.cc\<close>) are not among the files at hand, so they are parameters here:
  \<^verbatim>\<open>generateParameters\<close> reads and advances the random number generator \<open>'r\<close>,
  \<^verbatim>\<open>getObservableFunction\<close> looks up the observable of index \<open>'k\<close> or throws.
\<close>

record ('k, 'r) SimulateModel =
  generateParameters :: "'r \<Rightarrow> real list \<times> 'r"
  getObservableFunction :: "'k \<Rightarrow> error + ObservableFunction"

record ('k, 'r) Simulator =
  model :: "('k, 'r) SimulateModel"
  obs_functions :: "ObservableFunction list"

definition Simulator :: "('k, 'r) SimulateModel \<Rightarrow> ('k, 'r) Simulator" where
  "Simulator model_arg = \<lparr>model = model_arg, obs_functions = []\<rparr>"

text \<open>
  The loop of \<^verbatim>\<open>simulate\<close> that calculates each of the observables, in the order of the
  columns; an observable that throws ends the loop.
\<close>

fun calculate_observables :: "ObservableFunction list \<Rightarrow> real list \<Rightarrow> error + real list" where
  "calculate_observables [] params = Inr []"
| "calculate_observables (f # fs) params =
     (case f params of
        Inl e \<Rightarrow> Inl e
      | Inr x \<Rightarrow> (case calculate_observables fs params of
                    Inl e \<Rightarrow> Inl e
                  | Inr xs \<Rightarrow> Inr (x # xs)))"

definition simulate :: "('k, 'r) Simulator \<Rightarrow> 'r \<Rightarrow> (error + real list) \<times> 'r" where
  "simulate sim r =
     (let num_obs = length (obs_functions sim)
      in if num_obs = 0 then (Inl NoObservables, r)
         else let (params, r') = generateParameters (model sim) r
              in (calculate_observables (obs_functions sim) params, r'))"

definition setObservable ::
  "('k, 'r) Simulator \<Rightarrow> nat \<Rightarrow> 'k \<Rightarrow> error + ('k, 'r) Simulator" where
  "setObservable sim j obs =
     (let len = length (obs_functions sim)
      in if j > len then Inl ObservableIndexOutOfRange
         else case getObservableFunction (model sim) obs of
                Inl e \<Rightarrow> Inl e
              | Inr func \<Rightarrow>
                  if j < len then Inr (sim\<lparr>obs_functions := (obs_functions sim)[j := func]\<rparr>)
                  else Inr (sim\<lparr>obs_functions := obs_functions sim @ [func]\<rparr>))"

subsection \<open>Simulator models and their factory\<close>

text \<open>
  Modelled from the spec: the state of a model, simple or composite. The header
  \<^verbatim>\<open>simulate_model.h\<close> declares the members (\<^verbatim>\<open>get_names\<close>, \<^verbatim>\<open>dists\<close>, \<^verbatim>\<open>getModelType\<close>,
  \<^verbatim>\<open>getSubmodelType\<close>, \<^verbatim>\<open>submodels\<close>); the definitions of the member functions
  (\<^verbatim>\<open>simulate_model.cc\<close>) are not among the files at hand. \<open>'d\<close> is the handle of a random
  distribution (a shared pointer, which may be null), \<open>'t\<close> the type of a model; the type of
  the submodels is \<open>None\<close> for a model that is not composite.
\<close>

datatype ('d, 't) Model = Model
  (get_names: "string list")
  (dists: "'d list")
  (getModelType: 't)
  (getSubmodelType: "'t option")
  (submodels: "('d, 't) Model list")

text \<open>
  Modelled from the spec: \<^verbatim>\<open>get_num_parameters\<close>, whose definition is missing, is the
  model's own declared count plus, for a composite model, the counts of its submodels.
\<close>

fun get_num_parameters :: "('d, 't) Model \<Rightarrow> nat" where
  "get_num_parameters (Model names ds t st subs) =
     length names + (if st = None then 0 else sum_list (map get_num_parameters subs))"

text \<open>
  Modelled from the spec: \<^verbatim>\<open>generateParameters\<close>, whose definition is missing, called
  \<open>sampleParameters\<close> by the spec. It samples one value per bound distribution in declared
  order; a composite model samples its own parameters first, then samples and concatenates
  each submodel's parameters in the order of the list of submodels. The function that
  samples a distribution is the parameter \<open>sample\<close>; the generator \<open>'r\<close> is threaded
  through all the calls.
\<close>

fun sample_dists :: "('d \<Rightarrow> 'r \<Rightarrow> real \<times> 'r) \<Rightarrow> 'd list \<Rightarrow> 'r \<Rightarrow> real list \<times> 'r" where
  "sample_dists sample [] r = ([], r)"
| "sample_dists sample (d # ds) r =
     (let (x, r1) = sample d r; (xs, r2) = sample_dists sample ds r1 in (x # xs, r2))"

fun sampleParameters ::
    "('d \<Rightarrow> 'r \<Rightarrow> real \<times> 'r) \<Rightarrow> ('d, 't) Model \<Rightarrow> 'r \<Rightarrow> real list \<times> 'r"
  and sampleSubmodels ::
    "('d \<Rightarrow> 'r \<Rightarrow> real \<times> 'r) \<Rightarrow> ('d, 't) Model list \<Rightarrow> 'r \<Rightarrow> real list \<times> 'r" where
  "sampleParameters sample (Model names ds t st subs) r =
     (let (own, r1) = sample_dists sample ds r;
          (rest, r2) = (if st = None then ([], r1) else sampleSubmodels sample subs r1)
      in (own @ rest, r2))"
| "sampleSubmodels sample [] r = ([], r)"
| "sampleSubmodels sample (m # ms) r =
     (let (p, r1) = sampleParameters sample m r;
          (ps, r2) = sampleSubmodels sample ms r1
      in (p @ ps, r2))"

text \<open>
  The invariant of the data model: every declared parameter has exactly one bound
  distribution, in the model and in all its submodels.
\<close>

fun all_bound :: "('d, 't) Model \<Rightarrow> bool" where
  "all_bound (Model names ds t st subs) =
     (length ds = length names \<and> list_all all_bound subs)"

text \<open>
  Modelled from the spec: \<^verbatim>\<open>to_lower\<close> of \<^verbatim>\<open>string_tools.h\<close>, which is not among the files
  at hand; names are case-insensitive.
\<close>

definition to_lower_char :: "char \<Rightarrow> char" where
  "to_lower_char c =
     (case map_of (zip ''ABCDEFGHIJKLMNOPQRSTUVWXYZ'' ''abcdefghijklmnopqrstuvwxyz'') c of
        None \<Rightarrow> c
      | Some l \<Rightarrow> l)"

definition to_lower :: "string \<Rightarrow> string" where
  "to_lower str = map to_lower_char str"

text \<open>
  The members of \<^verbatim>\<open>SimulateModelFactory\<close>. \<^verbatim>\<open>comp_model\<close> is the model cast to a composite
  model, null if the model is not composite: here the flag that the cast has succeeded.
\<close>

record ('d, 't) SimulateModelFactory =
  fmodel :: "('d, 't) Model"
  comp_model :: bool
  remaining_names :: "string set"
  model_names :: "string list"

text \<open>
  \<^verbatim>\<open>makeFactory<T>\<close>: the argument is the default-constructed model of type \<^verbatim>\<open>T\<close>, and
  \<open>null\<close> the null handle that \<^verbatim>\<open>resize\<close> fills the vector of distributions with.
\<close>

definition resize :: "nat \<Rightarrow> 'a \<Rightarrow> 'a list \<Rightarrow> 'a list" where
  "resize n x xs = take n xs @ replicate (n - length xs) x"

definition makeFactory :: "'d \<Rightarrow> ('d, 't) Model \<Rightarrow> ('d, 't) SimulateModelFactory" where
  "makeFactory null m =
     (let names = get_names m
      in \<lparr>fmodel = Model (get_names m) (resize (get_num_parameters m) null (dists m))
                      (getModelType m) (getSubmodelType m) (submodels m),
          comp_model = (getSubmodelType m \<noteq> None),
          remaining_names = set (map to_lower names),
          model_names = names\<rparr>)"

text \<open>
  Modelled from the spec: \<^verbatim>\<open>setDistribution\<close>, whose definition is missing. It binds the
  name, compared without case, to the distribution if it is among the names the model
  requires, and is a no-op otherwise; the flag tells whether the distribution was used.
\<close>

fun find_name :: "string \<Rightarrow> string list \<Rightarrow> nat option" where
  "find_name name [] = None"
| "find_name name (n # ns) =
     (if to_lower n = name then Some 0 else map_option Suc (find_name name ns))"

definition setDistribution ::
  "('d, 't) SimulateModelFactory \<Rightarrow> string \<Rightarrow> 'd \<Rightarrow> ('d, 't) SimulateModelFactory \<times> bool" where
  "setDistribution f name distr =
     (case find_name (to_lower name) (model_names f) of
        None \<Rightarrow> (f, False)
      | Some j \<Rightarrow>
          (f\<lparr>fmodel := Model (get_names (fmodel f)) ((dists (fmodel f))[j := distr])
                          (getModelType (fmodel f)) (getSubmodelType (fmodel f))
                          (submodels (fmodel f)),
              remaining_names := remaining_names f - {to_lower name}\<rparr>, True))"

text \<open>
  Modelled from the spec: \<^verbatim>\<open>addSubmodel\<close>, whose definition is missing. It fails if the
  model is not composite or if the type of the submodel is not the type the composite model
  requires; otherwise the submodel goes to the end of the list.
\<close>

definition addSubmodel ::
  "('d, 't) SimulateModelFactory \<Rightarrow> ('d, 't) Model \<Rightarrow> error + ('d, 't) SimulateModelFactory" where
  "addSubmodel f submodel_add =
     (if \<not> comp_model f then Inl NotCompositeSimulateModel
      else if Some (getModelType submodel_add) \<noteq> getSubmodelType (fmodel f)
        then Inl IncompatibleSubmodel
      else Inr (f\<lparr>fmodel := Model (get_names (fmodel f)) (dists (fmodel f))
                          (getModelType (fmodel f)) (getSubmodelType (fmodel f))
                          (submodels (fmodel f) @ [submodel_add])\<rparr>))"

text \<open>
  Modelled from the spec: \<^verbatim>\<open>getModel\<close>, whose definition is missing. It validates that all
  declared names are bound (else the missing-distribution error) and, for a composite
  model, that at least one submodel was added (else the no-submodels error).
\<close>

definition getModel :: "('d, 't) SimulateModelFactory \<Rightarrow> error + ('d, 't) Model" where
  "getModel f =
     (if remaining_names f \<noteq> {} then Inl MissingDistribution
      else if comp_model f \<and> submodels (fmodel f) = [] then Inl NoSubmodels
      else Inr (fmodel f))"

text \<open>The calls a client makes on a factory, and a sequence of them up to the first error.\<close>

datatype ('d, 't) factory_call = SetDistribution string 'd | AddSubmodel "('d, 't) Model"

fun apply_call ::
  "('d, 't) SimulateModelFactory \<Rightarrow> ('d, 't) factory_call \<Rightarrow> error + ('d, 't) SimulateModelFactory" where
  "apply_call f (SetDistribution name distr) = Inr (fst (setDistribution f name distr))"
| "apply_call f (AddSubmodel m) = addSubmodel f m"

fun apply_calls ::
  "('d, 't) SimulateModelFactory \<Rightarrow> ('d, 't) factory_call list \<Rightarrow> error + ('d, 't) SimulateModelFactory" where
  "apply_calls f [] = Inr f"
| "apply_calls f (c # cs) =
     (case apply_call f c of Inl e \<Rightarrow> Inl e | Inr f' \<Rightarrow> apply_calls f' cs)"

text \<open>The names, in lower case, that the calls of \<^verbatim>\<open>setDistribution\<close> in a sequence bind.\<close>

fun bound_names :: "('d, 't) factory_call list \<Rightarrow> string set" where
  "bound_names [] = {}"
| "bound_names (SetDistribution name distr # cs) = insert (to_lower name) (bound_names cs)"
| "bound_names (AddSubmodel m # cs) = bound_names cs"

fun added_submodels :: "('d, 't) factory_call list \<Rightarrow> ('d, 't) Model list" where
  "added_submodels [] = []"
| "added_submodels (SetDistribution name distr # cs) = added_submodels cs"
| "added_submodels (AddSubmodel m # cs) = m # added_submodels cs"

subsection \<open>Inputs of the examples\<close>

text \<open>The ten points of the test of the two-dimensional histogram with linear binning.\<close>

definition scenario1_points :: "real list list" where
  "scenario1_points = [[0.4, 0.4], [0.3, 0.7], [0.4, 0.0], [1.0, 0.7], [0.1, 0.8],
     [0.6, 0.1], [0.2, 0.2], [0.3, 0.0], [0.7, 1.0], [0.0, 0.8]]"

text \<open>The points are added to a histogram of two dimensions, which is then binned.\<close>

definition scenario1 :: "error + Histogram" where
  "scenario1 = (case add_all (Histogram 2) scenario1_points of
      Inl e \<Rightarrow> Inl e
    | Inr h \<Rightarrow> bin_data h [Some (BinLinear 2), Some (BinLinear 2)])"

text \<open>A histogram of one dimension after one point and one call of \<^verbatim>\<open>bin_data\<close>.\<close>

definition binned_once :: Histogram where
  "binned_once = \<lparr>haveBinned = False, ndim = 1, data = [[1]], extremes = [(1, 1)],
     bin_value = [[1]], binned_data = [0]\<rparr>"

text \<open>A histogram of two dimensions after the points \<open>(3, 8)\<close> and \<open>(1, 8)\<close>.\<close>

definition example_histogram :: Histogram where
  "example_histogram = \<lparr>haveBinned = False, ndim = 2, data = [[1, 8], [3, 8]],
     extremes = [(1, 3), (8, 8)], bin_value = [], binned_data = []\<rparr>"

text \<open>Observables and a model for a simulator of two columns, and one whose observable throws.\<close>

definition failing_observable :: ObservableFunction where
  "failing_observable params = Inl NoObservableProduced"

definition first_parameter :: ObservableFunction where
  "first_parameter params = (case params of [] \<Rightarrow> Inl NoObservableProduced | x # xs \<Rightarrow> Inr x)"

definition sum_parameters :: ObservableFunction where
  "sum_parameters params = Inr (sum_list params)"

definition example_model :: "(nat, nat) SimulateModel" where
  "example_model = \<lparr>generateParameters = (\<lambda>r. ([real r, 2], Suc r)),
     getObservableFunction = (\<lambda>k. if k = 0 then Inr first_parameter
        else if k = 1 then Inr sum_parameters
        else if k = 2 then Inr failing_observable
        else Inl IncompatibleObservable)\<rparr>"

definition example_simulator :: "(nat, nat) Simulator" where
  "example_simulator = \<lparr>model = example_model, obs_functions = [first_parameter, sum_parameters]\<rparr>"

definition failing_simulator :: "(nat, nat) Simulator" where
  "failing_simulator = \<lparr>model = example_model, obs_functions = [failing_observable]\<rparr>"

text \<open>
  Distributions that are constants, with a generator that counts the draws; a type of
  junctions, composite of channels, and a type of channels.
\<close>

definition constant_sample :: "real \<Rightarrow> nat \<Rightarrow> real \<times> nat" where
  "constant_sample d r = (d, Suc r)"

datatype model_type = FullModel | ChannelType

definition channel_class :: "(real, model_type) Model" where
  "channel_class = Model [''epsilon'', ''Gamma''] [] ChannelType None []"

definition junction_class :: "(real, model_type) Model" where
  "junction_class = Model [''EF'', ''V''] [] FullModel (Some ChannelType) []"

definition channel1 :: "(real, model_type) Model" where
  "channel1 = Model [''epsilon'', ''Gamma''] [1, 2] ChannelType None []"

definition channel2 :: "(real, model_type) Model" where
  "channel2 = Model [''epsilon'', ''Gamma''] [3, 4] ChannelType None []"

definition sum_channels_class :: "(real, model_type) Model" where
  "sum_channels_class = Model [] [] FullModel (Some ChannelType) []"

definition two_channels :: "(real, model_type) Model" where
  "two_channels = Model [] [] FullModel (Some ChannelType) [channel1, channel2]"

definition junction :: "(real, model_type) Model" where
  "junction = Model [''EF'', ''V''] [0, 5] FullModel (Some ChannelType) [channel1]"

definition junction_without_v :: "(real, model_type) SimulateModelFactory" where
  "junction_without_v =
     \<lparr>fmodel = Model [''EF'', ''V''] [7, 0] FullModel (Some ChannelType) [channel1],
      comp_model = True, remaining_names = {''v''}, model_names = [''EF'', ''V'']\<rparr>"

definition junction_without_channel :: "(real, model_type) SimulateModelFactory" where
  "junction_without_channel =
     \<lparr>fmodel = Model [''EF'', ''V''] [0, 5] FullModel (Some ChannelType) [],
      comp_model = True, remaining_names = {}, model_names = [''EF'', ''V'']\<rparr>"

definition junction_complete :: "(real, model_type) SimulateModelFactory" where
  "junction_complete =
     \<lparr>fmodel = junction,
      comp_model = True, remaining_names = {}, model_names = [''EF'', ''V'']\<rparr>"

definition channel_complete :: "(real, model_type) SimulateModelFactory" where
  "channel_complete =
     \<lparr>fmodel = channel1,
      comp_model = False, remaining_names = {}, model_names = [''epsilon'', ''Gamma'']\<rparr>"

section \<open>Properties of the histogram\<close>

subsection \<open>Auxiliary facts\<close>

lemma upt2: "[0..<2] = [0, 1]"
  by (simp add: upt_rec)

lemma rep2: "replicate 2 x = [x, x]"
  by (simp add: numeral_2_eq_2)

lemma rep4: "replicate 4 x = [x, x, x, x]"
  by (simp add: numeral_eq_Suc)

lemma eight_less_DBL_MAX: "8 < DBL_MAX"
  unfolding DBL_MAX_def by simp

lemma less_DBL_MAX: "x \<le> 8 \<Longrightarrow> x < DBL_MAX"
  using eight_less_DBL_MAX by linarith

lemma check_limit_upd:
  "check_limit v j ex = ex[j := (min (v ! j) (fst (ex ! j)), max (v ! j) (snd (ex ! j)))]"
  if "j < length ex"
  using that by (auto simp: check_limit_def Let_def min_def max_def list_update_same_conv prod_eq_iff)

lemma length_check_limit: "length (check_limit v j ex) = length ex"
  by (simp add: check_limit_def Let_def)

lemma length_fold_check_limit: "length (fold (check_limit v) js ex) = length ex"
  by (induction js arbitrary: ex) (simp_all add: length_check_limit)

lemma fold_check_limit_nth:
  assumes "n \<le> length ex" "i < length ex"
  shows "fold (check_limit v) [0..<n] ex ! i =
    (if i < n then (min (v ! i) (fst (ex ! i)), max (v ! i) (snd (ex ! i))) else ex ! i)"
  using assms
proof (induction n)
  case 0
  then show ?case by simp
next
  case (Suc n)
  then show ?case
    by (auto simp: check_limit_upd length_fold_check_limit nth_list_update less_Suc_eq)
qed

lemma add_data_Inr:
  "add_data h v = Inr h' \<Longrightarrow>
     \<not> haveBinned h \<and> length v = ndim h \<and> ndim h' = ndim h \<and> haveBinned h' = haveBinned h \<and>
     data h' = v # data h \<and> extremes h' = fold (check_limit v) [0..<ndim h] (extremes h)"
  by (auto simp: add_data_def split: if_splits)

lemma Min_insert_min:
  "finite S \<Longrightarrow> Min (insert (min a b) S) = Min (insert (b::real) (insert a S))"
  by (cases "S = {}") (simp_all add: ac_simps)

lemma Max_insert_max:
  "finite S \<Longrightarrow> Max (insert (max a b) S) = Max (insert (b::real) (insert a S))"
  by (cases "S = {}") (simp_all add: ac_simps)

lemma add_all_extremes:
  assumes "add_all h vs = Inr h'" "length (extremes h) = ndim h" "j < ndim h"
  shows "extremes h' ! j =
     (Min (insert (fst (extremes h ! j)) ((\<lambda>v. v ! j) ` set vs)),
      Max (insert (snd (extremes h ! j)) ((\<lambda>v. v ! j) ` set vs)))"
  using assms
proof (induction vs arbitrary: h)
  case Nil
  then show ?case by simp
next
  case (Cons v vs)
  from Cons.prems(1) obtain h1 where h1: "add_data h v = Inr h1" and rest: "add_all h1 vs = Inr h'"
    by (auto split: sum.splits)
  note f = add_data_Inr [OF h1]
  have len: "length (extremes h1) = ndim h1"
    using f Cons.prems(2) by (simp add: length_fold_check_limit)
  have j1: "j < ndim h1" using f Cons.prems(3) by simp
  have e1: "extremes h1 ! j = (min (v ! j) (fst (extremes h ! j)), max (v ! j) (snd (extremes h ! j)))"
    using f Cons.prems(2,3) by (simp add: fold_check_limit_nth)
  have "extremes h' ! j =
     (Min (insert (min (v ! j) (fst (extremes h ! j))) ((\<lambda>v. v ! j) ` set vs)),
      Max (insert (max (v ! j) (snd (extremes h ! j))) ((\<lambda>v. v ! j) ` set vs)))"
    using Cons.IH [OF rest len j1] by (simp only: e1 fst_conv snd_conv)
  also have "\<dots> = (Min (insert (fst (extremes h ! j)) (insert (v ! j) ((\<lambda>v. v ! j) ` set vs))),
      Max (insert (snd (extremes h ! j)) (insert (v ! j) ((\<lambda>v. v ! j) ` set vs))))"
    by (simp only: Min_insert_min Max_insert_max finite_imageI finite_set)
  finally show ?case by (simp only: list.set image_insert)
qed

lemma add_all_not_binned:
  "add_all h vs = Inr h' \<Longrightarrow> haveBinned h' = haveBinned h"
  by (induction vs arbitrary: h) (auto split: sum.splits dest: add_data_Inr)

lemma add_all_Histogram_extremes:
  assumes "add_all (Histogram n) vs = Inr h" and "j < n" and "vs \<noteq> []"
    and "\<forall>v\<in>set vs. DBL_LOWEST \<le> v ! j \<and> v ! j \<le> DBL_MAX"
  shows "extremes h ! j = (Min ((\<lambda>v. v ! j) ` set vs), Max ((\<lambda>v. v ! j) ` set vs))"
proof -
  let ?S = "(\<lambda>v. v ! j) ` set vs"
  have init: "extremes (Histogram n) ! j = (DBL_MAX, DBL_LOWEST)"
    using assms(2) by (simp add: Histogram_def)
  have fin: "finite ?S" and ne: "?S \<noteq> {}"
    using assms(3) by simp_all
  have "extremes h ! j = (Min (insert DBL_MAX ?S), Max (insert DBL_LOWEST ?S))"
    using add_all_extremes [OF assms(1), of j] assms(2) init by (simp add: Histogram_def)
  moreover have "Min ?S \<le> DBL_MAX"
    using Min_in [OF fin ne] assms(4) by auto
  moreover have "DBL_LOWEST \<le> Max ?S"
    using Max_in [OF fin ne] assms(4) by auto
  moreover have "Min (insert DBL_MAX ?S) = min DBL_MAX (Min ?S)"
    using fin ne by (rule Min_insert)
  moreover have "Max (insert DBL_LOWEST ?S) = max DBL_LOWEST (Max ?S)"
    using fin ne by (rule Max_insert)
  ultimately show ?thesis
    by (simp only: min_absorb2 max_absorb2)
qed

text \<open>
  The span of the stored extremes is zero exactly when all the values inserted on the
  axis are equal.
\<close>

lemma zero_span_iff_all_equal:
  assumes "add_all (Histogram n) vs = Inr h" and "j < n" and "vs \<noteq> []"
    and "\<forall>v\<in>set vs. DBL_LOWEST \<le> v ! j \<and> v ! j \<le> DBL_MAX"
  shows "fst (extremes h ! j) = snd (extremes h ! j) \<longleftrightarrow>
     (\<forall>v\<in>set vs. \<forall>v'\<in>set vs. v ! j = v' ! j)"
proof -
  let ?S = "(\<lambda>v. v ! j) ` set vs"
  have fin: "finite ?S" and ne: "?S \<noteq> {}"
    using assms(3) by simp_all
  have "Min ?S = Max ?S \<longleftrightarrow> (\<forall>x\<in>?S. \<forall>y\<in>?S. x = y)"
  proof
    assume eq: "Min ?S = Max ?S"
    show "\<forall>x\<in>?S. \<forall>y\<in>?S. x = y"
    proof (intro ballI)
      fix x y
      assume "x \<in> ?S" "y \<in> ?S"
      then have "Min ?S \<le> x" "x \<le> Max ?S" "Min ?S \<le> y" "y \<le> Max ?S"
        using fin by simp_all
      with eq show "x = y" by linarith
    qed
  next
    assume "\<forall>x\<in>?S. \<forall>y\<in>?S. x = y"
    with Min_in [OF fin ne] Max_in [OF fin ne] show "Min ?S = Max ?S" by blast
  qed
  then show ?thesis
    using add_all_Histogram_extremes [OF assms] by auto
qed

lemma check_styles_Inr_iff:
  "(\<exists>t'. check_styles bs ex js t = Inr t') \<longleftrightarrow>
     list_all (\<lambda>j. case bs ! j of None \<Rightarrow> False
                    | Some b \<Rightarrow> nbins b \<noteq> 0 \<and> \<not> (fst (ex ! j) = snd (ex ! j) \<and> nbins b \<noteq> 1)) js"
  by (induction js arbitrary: t) (auto split: option.splits)

lemma bin_data_Inr:
  assumes "bin_data h bs = Inr h'"
  shows "\<not> haveBinned h" "length bs = ndim h"
    "\<exists>t. check_styles bs (extremes h) [0..<ndim h] 1 = Inr t \<and>
       h' = h\<lparr>bin_value := map (\<lambda>j. let b = the (bs ! j); (b0, b1, b2) = bounds b (extremes h ! j)
                                   in bin_values b0 b1 b2 b) [0..<ndim h],
              binned_data := replicate t 0\<rparr>"
  using assms by (auto simp: bin_data_def split: if_splits sum.splits)

lemma bin_data_keeps_haveBinned:
  "bin_data h bs = Inr h' \<Longrightarrow> \<not> haveBinned h'"
  by (auto simp: bin_data_def split: if_splits sum.splits)

lemma add_all_example_histogram:
  "add_all (Histogram 2) [[3, 8], [1, 8]] = Inr example_histogram"
  using less_DBL_MAX [of "-3"] less_DBL_MAX [of "-8"] less_DBL_MAX [of 3] less_DBL_MAX [of 8]
  by (simp add: example_histogram_def Histogram_def add_data_def check_limit_def DBL_LOWEST_def upt2 rep2)

lemma scenario1_histogram:
  "add_all (Histogram 2) scenario1_points =
     Inr \<lparr>haveBinned = False, ndim = 2, data = rev scenario1_points,
          extremes = [(0, 1), (0, 1)], bin_value = [], binned_data = []\<rparr>"
  using less_DBL_MAX [of "0.4"] less_DBL_MAX [of "-0.4"]
  by (simp add: scenario1_points_def Histogram_def add_data_def check_limit_def DBL_LOWEST_def
      upt2 rep2)

subsection \<open>The claims\<close>

text \<open>
  C1. For a histogram of two dimensions with two bins per axis under linear binning, after
  the ten points of the test and then binning, the claim is that the bins (0,0), (0,1),
  (1,0), (1,1) hold the raw counts 4, 3, 1, 0 and have the representative coordinates
  (0.25, 0.25), (0.25, 0.75), (0.75, 0.25), (0.75, 0.75). The code computes the coordinates
  (the values 0.25 and 0.75 on either axis), but \<^verbatim>\<open>bin_data\<close> stops after it has sized
  \<^verbatim>\<open>binned_data\<close>: no tuple is assigned to a bin, and all four counts stay zero.
\<close>

theorem scenario1_counts_stay_zero:
  "map_sum id (\<lambda>h. (binned_data h, bin_value h)) scenario1 =
     Inr ([0, 0, 0, 0], [[1 / 4, 3 / 4], [1 / 4, 3 / 4]])"
  by (simp add: scenario1_def scenario1_histogram upt2 rep4 bin_data_def bounds_def
      bin_values_def BinLinear_def SIZE_MODULUS_def)

text \<open>
  C2. Binning is claimed to be a one-shot, irreversible transition: after one successful
  call of \<^verbatim>\<open>bin_data\<close>, every call of \<^verbatim>\<open>add_data\<close> and of \<^verbatim>\<open>bin_data\<close> fails and leaves
  the state unchanged. Both functions test \<^verbatim>\<open>haveBinned\<close>, but \<^verbatim>\<open>bin_data\<close> never sets it:
  on the histogram of one point that has been binned once, a further point is accepted
  and a second binning succeeds.
\<close>

theorem binning_is_not_one_shot:
  "(case add_data (Histogram 1) [1] of Inl e \<Rightarrow> Inl e
      | Inr h \<Rightarrow> bin_data h [Some (BinLinear 1)]) = Inr binned_once \<and>
   add_data binned_once [2] = Inr (binned_once\<lparr>extremes := [(1, 2)], data := [[2], [1]]\<rparr>) \<and>
   bin_data binned_once [Some (BinLinear 1)] = Inr binned_once"
  using less_DBL_MAX [of 1] less_DBL_MAX [of "-1"]
  by (simp add: binned_once_def Histogram_def add_data_def check_limit_def DBL_LOWEST_def
      bin_data_def bounds_def bin_values_def BinLinear_def SIZE_MODULUS_def)

text \<open>
  C7. For every axis \<open>j\<close> of a histogram with the observed extremes \<open>min\<close> and \<open>max\<close> and a
  style of \<open>nbins\<close> bins, the representative coordinate of bin \<open>i\<close> is
  \<open>(invmask l + invmask u) / 2\<close>, where \<open>l = mask min + i * w\<close>,
  \<open>u = mask min + (i + 1) * w\<close> and \<open>w = (mask max - mask min) / nbins\<close>: the average, in
  unmasked space, of the end points of the bin of equal masked width.
\<close>

theorem bin_value_midpoint:
  assumes "bin_data h binstyles = Inr h'" and "j < ndim h" and "binstyles ! j = Some b"
    and "i < nbins b"
  shows "(let w = (mask b (snd (extremes h ! j)) - mask b (fst (extremes h ! j))) / real (nbins b);
              l = mask b (fst (extremes h ! j)) + real i * w;
              u = mask b (fst (extremes h ! j)) + real (i + 1) * w
          in bin_value h' ! j ! i = (invmask b l + invmask b u) / 2)"
proof -
  from bin_data_Inr(3) [OF assms(1)] obtain t where
    h': "h' = h\<lparr>bin_value := map (\<lambda>j. let b = the (binstyles ! j); (b0, b1, b2) = bounds b (extremes h ! j)
                                   in bin_values b0 b1 b2 b) [0..<ndim h],
              binned_data := replicate t 0\<rparr>" by blast
  have "bin_value h' ! j = (let (b0, b1, b2) = bounds b (extremes h ! j) in bin_values b0 b1 b2 b)"
    using assms(2,3) by (simp add: h')
  then show ?thesis
    using assms(4) by (simp add: bounds_def bin_values_def Let_def)
qed

theorem bin_value_midpoint_witness:
  "bin_data example_histogram [Some (BinLinear 2), Some (BinLinear 1)] =
     Inr (example_histogram\<lparr>bin_value := [[3/2, 5/2], [8]], binned_data := [0, 0]\<rparr>) \<and>
   bin_value (example_histogram\<lparr>bin_value := [[3/2, 5/2], [8]], binned_data := [0, 0]\<rparr>) ! 0 ! 1
     = (2 + 3) / 2"
proof -
  have b: "bin_data example_histogram [Some (BinLinear 2), Some (BinLinear 1)] =
     Inr (example_histogram\<lparr>bin_value := [[3/2, 5/2], [8]], binned_data := [0, 0]\<rparr>)"
    by (simp add: example_histogram_def bin_data_def bounds_def bin_values_def BinLinear_def
        SIZE_MODULUS_def upt2 rep2)
  from bin_value_midpoint [OF b, of 0 "BinLinear 2" 1]
  show ?thesis using b by (simp add: example_histogram_def BinLinear_def)
qed

text \<open>
  The validation of \<^verbatim>\<open>bin_data\<close> in terms of the stored extremes: the call fails whenever
  some axis has no style, or a style of 0 bins, or a style of more than 1 bin while the
  stored minimum and maximum of the axis are equal; when no axis is so, the histogram has
  not been binned and the list has as many styles as the histogram has dimensions, the
  validation passes and the binning proceeds.
\<close>

theorem bin_data_validation:
  "((\<exists>j<ndim h. binstyles ! j = None \<or>
       (\<exists>b. binstyles ! j = Some b \<and>
          (nbins b = 0 \<or> (nbins b > 1 \<and> fst (extremes h ! j) = snd (extremes h ! j)))))
     \<longrightarrow> (\<exists>e. bin_data h binstyles = Inl e)) \<and>
   (\<not> haveBinned h \<and> length binstyles = ndim h \<and>
     (\<forall>j<ndim h. \<exists>b. binstyles ! j = Some b \<and> nbins b \<ge> 1 \<and>
          (nbins b > 1 \<longrightarrow> fst (extremes h ! j) \<noteq> snd (extremes h ! j)))
     \<longrightarrow> (\<exists>h'. bin_data h binstyles = Inr h' \<and> length (bin_value h') = ndim h))"
proof -
  let ?ok = "\<lambda>j. case binstyles ! j of None \<Rightarrow> False
       | Some b \<Rightarrow> nbins b \<noteq> 0 \<and> \<not> (fst (extremes h ! j) = snd (extremes h ! j) \<and> nbins b \<noteq> 1)"
  have bad: "(\<exists>j<ndim h. binstyles ! j = None \<or>
       (\<exists>b. binstyles ! j = Some b \<and>
          (nbins b = 0 \<or> (nbins b > 1 \<and> fst (extremes h ! j) = snd (extremes h ! j)))))
     \<longrightarrow> (\<exists>e. bin_data h binstyles = Inl e)"
  proof
    assume "\<exists>j<ndim h. binstyles ! j = None \<or>
       (\<exists>b. binstyles ! j = Some b \<and>
          (nbins b = 0 \<or> (nbins b > 1 \<and> fst (extremes h ! j) = snd (extremes h ! j))))"
    then obtain j where j: "j < ndim h" and nok: "\<not> ?ok j"
      by (auto split: option.splits)
    have "\<not> list_all ?ok [0..<ndim h]"
      using j nok by (auto simp: list_all_iff)
    then have "\<nexists>t. check_styles binstyles (extremes h) [0..<ndim h] 1 = Inr t"
      using check_styles_Inr_iff [of binstyles "extremes h" "[0..<ndim h]" 1] by simp
    then show "\<exists>e. bin_data h binstyles = Inl e"
      by (cases "bin_data h binstyles") (auto dest: bin_data_Inr(3))
  qed
  have good: "\<not> haveBinned h \<and> length binstyles = ndim h \<and>
     (\<forall>j<ndim h. \<exists>b. binstyles ! j = Some b \<and> nbins b \<ge> 1 \<and>
          (nbins b > 1 \<longrightarrow> fst (extremes h ! j) \<noteq> snd (extremes h ! j)))
     \<longrightarrow> (\<exists>h'. bin_data h binstyles = Inr h' \<and> length (bin_value h') = ndim h)"
  proof
    assume a: "\<not> haveBinned h \<and> length binstyles = ndim h \<and>
     (\<forall>j<ndim h. \<exists>b. binstyles ! j = Some b \<and> nbins b \<ge> 1 \<and>
          (nbins b > 1 \<longrightarrow> fst (extremes h ! j) \<noteq> snd (extremes h ! j)))"
    then have "list_all ?ok [0..<ndim h]"
      by (fastforce simp: list_all_iff)
    then obtain t where "check_styles binstyles (extremes h) [0..<ndim h] 1 = Inr t"
      using check_styles_Inr_iff [of binstyles "extremes h" "[0..<ndim h]" 1] by blast
    then show "\<exists>h'. bin_data h binstyles = Inr h' \<and> length (bin_value h') = ndim h"
      using a by (simp add: bin_data_def)
  qed
  from bad good show ?thesis by (rule conjI)
qed


theorem bin_data_validation_witness:
  "(\<exists>e. bin_data example_histogram [Some (BinLinear 2), Some (BinLinear 2)] = Inl e) \<and>
   (\<exists>h'. bin_data example_histogram [Some (BinLinear 2), Some (BinLinear 1)] = Inr h' \<and>
      length (bin_value h') = 2)"
proof -
  have bad: "\<exists>j<ndim example_histogram. [Some (BinLinear 2), Some (BinLinear 2)] ! j = None \<or>
       (\<exists>b. [Some (BinLinear 2), Some (BinLinear 2)] ! j = Some b \<and>
          (nbins b = 0 \<or> (nbins b > 1 \<and>
             fst (extremes example_histogram ! j) = snd (extremes example_histogram ! j))))"
    by (rule exI [of _ 1]) (simp add: example_histogram_def BinLinear_def)
  have good: "\<not> haveBinned example_histogram \<and>
     length [Some (BinLinear 2), Some (BinLinear 1)] = ndim example_histogram \<and>
     (\<forall>j<ndim example_histogram. \<exists>b. [Some (BinLinear 2), Some (BinLinear 1)] ! j = Some b \<and>
        nbins b \<ge> 1 \<and>
        (nbins b > 1 \<longrightarrow> fst (extremes example_histogram ! j) \<noteq> snd (extremes example_histogram ! j)))"
    by (simp add: example_histogram_def BinLinear_def less_2_cases_iff)
  from bin_data_validation [of example_histogram "[Some (BinLinear 2), Some (BinLinear 2)]"] bad
  have 1: "\<exists>e. bin_data example_histogram [Some (BinLinear 2), Some (BinLinear 2)] = Inl e"
    by blast
  from bin_data_validation [of example_histogram "[Some (BinLinear 2), Some (BinLinear 1)]"] good
  have 2: "\<exists>h'. bin_data example_histogram [Some (BinLinear 2), Some (BinLinear 1)] = Inr h' \<and>
      length (bin_value h') = ndim example_histogram"
    by blast
  from 1 2 show ?thesis by (simp add: example_histogram_def)
qed

lemma DBL_MAX_neq_DBL_LOWEST: "DBL_MAX \<noteq> DBL_LOWEST"
  using eight_less_DBL_MAX by (simp add: DBL_LOWEST_def)

text \<open>
  C8. The claim is that \<^verbatim>\<open>bin_data\<close>, on a histogram that has not been binned, fails
  whenever some axis has no style, a style of 0 bins, or a style of more than 1 bin while
  all the values observed on the axis are equal, and that the validation passes otherwise.
  The code tests the stored extremes, which are equal exactly when values have been
  observed and are all equal (lemma \<open>zero_span_iff_all_equal\<close>). On a histogram without
  data the stored extremes are the largest and the lowest double: they differ, so a style
  of 2 bins passes the validation although there is no range of data values, and
  \<^verbatim>\<open>bin_data\<close> returns normally. With the value 5 observed twice the same style is
  refused.
\<close>

theorem bin_data_accepts_histogram_without_data:
  "map_sum id binned_data (bin_data (Histogram 1) [Some (BinLinear 2)]) = Inr [0, 0] \<and>
   (case add_all (Histogram 1) [[5], [5]] of
      Inl e \<Rightarrow> Inl e
    | Inr h \<Rightarrow> bin_data h [Some (BinLinear 2)]) = Inl (UnableToBin 0)"
  using DBL_MAX_neq_DBL_LOWEST less_DBL_MAX [of 5] less_DBL_MAX [of "-5"]
  by (simp add: Histogram_def add_data_def check_limit_def bin_data_def BinLinear_def
      SIZE_MODULUS_def rep2 DBL_LOWEST_def)

text \<open>
  C10. After any sequence of successful calls of \<^verbatim>\<open>add_data\<close> and before binning, the
  stored extremes of every axis \<open>j\<close> are the minimum and the maximum of the values inserted
  on that axis; before the first insertion they are the largest and the lowest double, so
  that the first tuple sets both ends. The inserted values are finite doubles.
\<close>

theorem extremes_min_max:
  assumes "add_all (Histogram n) vs = Inr h" and "j < n" and "vs \<noteq> []"
    and "\<forall>v\<in>set vs. DBL_LOWEST \<le> v ! j \<and> v ! j \<le> DBL_MAX"
  shows "extremes (Histogram n) ! j = (DBL_MAX, DBL_LOWEST) \<and> \<not> haveBinned h \<and>
     extremes h ! j = (Min ((\<lambda>v. v ! j) ` set vs), Max ((\<lambda>v. v ! j) ` set vs))"
proof -
  have "extremes (Histogram n) ! j = (DBL_MAX, DBL_LOWEST)"
    using assms(2) by (simp add: Histogram_def)
  moreover have "\<not> haveBinned h"
    using add_all_not_binned [OF assms(1)] by (simp add: Histogram_def)
  moreover note add_all_Histogram_extremes [OF assms]
  ultimately show ?thesis by simp
qed

theorem extremes_min_max_witness:
  "add_all (Histogram 2) [[3, 8], [1, 8]] = Inr example_histogram \<and>
   extremes (Histogram 2) ! 0 = (DBL_MAX, DBL_LOWEST) \<and> \<not> haveBinned example_histogram \<and>
   extremes example_histogram ! 0 = (1, 3)"
proof -
  have "\<forall>v\<in>set [[3, 8], [1, 8::real]]. DBL_LOWEST \<le> v ! 0 \<and> v ! 0 \<le> DBL_MAX"
    using less_DBL_MAX [of "-3"] less_DBL_MAX [of "-1"] less_DBL_MAX [of 3] less_DBL_MAX [of 1]
    by (simp add: DBL_LOWEST_def)
  from extremes_min_max [OF add_all_example_histogram _ _ this]
  show ?thesis by (simp add: add_all_example_histogram del: add_all.simps)
qed

section \<open>Properties of the simulator\<close>

lemma calculate_observables_Inr:
  "(\<forall>f\<in>set fs. \<exists>x. f params = Inr x) \<Longrightarrow>
     \<exists>ret. calculate_observables fs params = Inr ret \<and> length ret = length fs \<and>
       (\<forall>j<length fs. (fs ! j) params = Inr (ret ! j))"
proof (induction fs)
  case Nil
  then show ?case by simp
next
  case (Cons f fs)
  then obtain x where x: "f params = Inr x" by auto
  from Cons obtain ret where ret: "calculate_observables fs params = Inr ret"
    "length ret = length fs" "\<forall>j<length fs. (fs ! j) params = Inr (ret ! j)" by auto
  have "\<forall>j<length (f # fs). ((f # fs) ! j) params = Inr ((x # ret) ! j)"
    using x ret(3) by (auto simp: nth_Cons split: nat.splits)
  then show ?case using x ret by simp
qed

lemma calculate_observables_Inl:
  "j < length fs \<Longrightarrow> (\<forall>i<j. \<exists>x. (fs ! i) params = Inr x) \<Longrightarrow> (fs ! j) params = Inl e \<Longrightarrow>
     calculate_observables fs params = Inl e"
proof (induction fs arbitrary: j)
  case Nil
  then show ?case by simp
next
  case (Cons f fs)
  show ?case
  proof (cases j)
    case 0
    with Cons.prems show ?thesis by simp
  next
    case (Suc k)
    with Cons.prems(2) obtain x where x: "f params = Inr x" by fastforce
    have "calculate_observables fs params = Inl e"
    proof (rule Cons.IH [of k])
      show "k < length fs" using Cons.prems(1) Suc by simp
      show "\<forall>i<k. \<exists>x. (fs ! i) params = Inr x"
        using Cons.prems(2) Suc by fastforce
      show "(fs ! k) params = Inl e" using Cons.prems(3) Suc by simp
    qed
    with x show ?thesis by simp
  qed
qed

text \<open>
  C3. The claim is that, for every simulator with at least one column, \<^verbatim>\<open>simulate\<close> returns
  a vector with one entry per column, entry \<open>j\<close> being the \<open>j\<close>-th observable function
  applied to one parameter vector sampled once from the model, and that it fails with the
  no-observables error if there is no column. An observable function may throw, and then
  \<^verbatim>\<open>simulate\<close> returns no vector: the simulator below has one column, bound by
  \<^verbatim>\<open>setObservable\<close> to an observable that throws.
\<close>

theorem simulate_throwing_observable:
  "setObservable (Simulator example_model) 0 2 = Inr failing_simulator \<and>
   length (obs_functions failing_simulator) = 1 \<and>
   simulate failing_simulator 0 = (Inl NoObservableProduced, 1)"
  by (simp add: setObservable_def Simulator_def simulate_def failing_simulator_def
      example_model_def failing_observable_def)

text \<open>
  C3, as amended. With no column \<^verbatim>\<open>simulate\<close> fails with the no-observables error and
  leaves the generator alone. With at least one column it samples one parameter vector,
  once; if every observable function returns a value on that vector, the result has one
  entry per column, entry \<open>j\<close> being the value of the \<open>j\<close>-th function on the vector; and
  if one throws, \<^verbatim>\<open>simulate\<close> throws the exception of the first column that does.
\<close>

theorem simulate_row:
  "(obs_functions sim = [] \<longrightarrow> simulate sim r = (Inl NoObservables, r)) \<and>
   (obs_functions sim \<noteq> [] \<longrightarrow> generateParameters (model sim) r = (params, r') \<longrightarrow>
      ((\<forall>f\<in>set (obs_functions sim). \<exists>x. f params = Inr x) \<longrightarrow>
         (\<exists>ret. simulate sim r = (Inr ret, r') \<and> length ret = length (obs_functions sim) \<and>
            (\<forall>j<length (obs_functions sim). (obs_functions sim ! j) params = Inr (ret ! j)))) \<and>
      (\<forall>j<length (obs_functions sim).
          (\<forall>i<j. \<exists>x. (obs_functions sim ! i) params = Inr x) \<longrightarrow>
          (obs_functions sim ! j) params = Inl e \<longrightarrow> simulate sim r = (Inl e, r')))"
proof (intro conjI impI allI)
  assume "obs_functions sim = []"
  then show "simulate sim r = (Inl NoObservables, r)" by (simp add: simulate_def)
next
  assume ne: "obs_functions sim \<noteq> []" and g: "generateParameters (model sim) r = (params, r')"
    and ok: "\<forall>f\<in>set (obs_functions sim). \<exists>x. f params = Inr x"
  have s: "simulate sim r = (calculate_observables (obs_functions sim) params, r')"
    using ne g by (simp add: simulate_def)
  from calculate_observables_Inr [OF ok] s
  show "\<exists>ret. simulate sim r = (Inr ret, r') \<and> length ret = length (obs_functions sim) \<and>
            (\<forall>j<length (obs_functions sim). (obs_functions sim ! j) params = Inr (ret ! j))"
    by auto
next
  fix j
  assume ne: "obs_functions sim \<noteq> []" and g: "generateParameters (model sim) r = (params, r')"
    and j: "j < length (obs_functions sim)"
    and before: "\<forall>i<j. \<exists>x. (obs_functions sim ! i) params = Inr x"
    and e: "(obs_functions sim ! j) params = Inl e"
  have s: "simulate sim r = (calculate_observables (obs_functions sim) params, r')"
    using ne g by (simp add: simulate_def)
  from calculate_observables_Inl [OF j before e] s
  show "simulate sim r = (Inl e, r')" by simp
qed

theorem simulate_row_witness:
  "simulate example_simulator 7 = (Inr [7, 9], 8) \<and>
   simulate (Simulator example_model) 7 = (Inl NoObservables, 7) \<and>
   simulate (example_simulator\<lparr>obs_functions := [first_parameter, failing_observable]\<rparr>) 7 =
     (Inl NoObservableProduced, 8)"
proof -
  let ?sim2 = "example_simulator\<lparr>obs_functions := [first_parameter, failing_observable]\<rparr>"
  have g: "generateParameters (model example_simulator) 7 = ([7, 2], 8)"
    and g2: "generateParameters (model ?sim2) 7 = ([7, 2], 8)"
    by (simp_all add: example_simulator_def example_model_def)
  have ne: "obs_functions example_simulator \<noteq> []" and ne2: "obs_functions ?sim2 \<noteq> []"
    by (simp_all add: example_simulator_def)
  have ok: "\<forall>f\<in>set (obs_functions example_simulator). \<exists>x. f [7, 2] = Inr x"
    by (simp add: example_simulator_def first_parameter_def sum_parameters_def)
  from simulate_row [of example_simulator 7 "[7, 2]" 8] g ne ok
  obtain ret where ret: "simulate example_simulator 7 = (Inr ret, 8)"
    "length ret = length (obs_functions example_simulator)"
    "\<forall>j<length (obs_functions example_simulator).
        (obs_functions example_simulator ! j) [7, 2] = Inr (ret ! j)"
    by blast
  from ret(2) have len: "length ret = 2" by (simp add: example_simulator_def)
  from ret(3) have "first_parameter [7, 2] = Inr (ret ! 0)" "sum_parameters [7, 2] = Inr (ret ! 1)"
    by (simp_all add: example_simulator_def All_less_Suc)
  then have "ret ! 0 = 7" "ret ! 1 = 9"
    by (simp_all add: first_parameter_def sum_parameters_def)
  with len have "ret = [7, 9]"
    by (cases ret; cases "tl ret") (auto simp: numeral_2_eq_2)
  with ret(1) have 1: "simulate example_simulator 7 = (Inr [7, 9], 8)" by simp
  from simulate_row [of "Simulator example_model" 7]
  have 2: "simulate (Simulator example_model) 7 = (Inl NoObservables, 7)"
    by (simp add: Simulator_def)
  have "\<forall>i<1. \<exists>x. (obs_functions ?sim2 ! i) [7, 2] = Inr x"
    by (simp add: first_parameter_def)
  moreover have "(obs_functions ?sim2 ! 1) [7, 2] = Inl NoObservableProduced"
    by (simp add: failing_observable_def)
  moreover have "1 < length (obs_functions ?sim2)" by simp
  ultimately have 3: "simulate ?sim2 7 = (Inl NoObservableProduced, 8)"
    using simulate_row [of ?sim2 7 "[7, 2]" 8 NoObservableProduced] g2 ne2 by blast
  from 1 2 3 show ?thesis by simp
qed

text \<open>
  C4. For a simulator whose list of columns has length \<open>L\<close>, \<^verbatim>\<open>setObservable\<close> succeeds only
  when \<open>j \<le> L\<close>: it fails with the out-of-range error whenever \<open>j > L\<close>; otherwise it fails
  with the exception of the model (the incompatible-observable error) when the model does
  not provide the observable; and otherwise it appends a column when \<open>j = L\<close>, which
  extends the list by exactly one, or rebinds column \<open>j\<close> when \<open>j < L\<close>.
\<close>

theorem setObservable_cases:
  "(length (obs_functions sim) < j \<longrightarrow> setObservable sim j obs = Inl ObservableIndexOutOfRange) \<and>
   (j \<le> length (obs_functions sim) \<longrightarrow> getObservableFunction (model sim) obs = Inl e \<longrightarrow>
      setObservable sim j obs = Inl e) \<and>
   (j = length (obs_functions sim) \<longrightarrow> getObservableFunction (model sim) obs = Inr func \<longrightarrow>
      setObservable sim j obs = Inr (sim\<lparr>obs_functions := obs_functions sim @ [func]\<rparr>) \<and>
      length (obs_functions sim @ [func]) = length (obs_functions sim) + 1) \<and>
   (j < length (obs_functions sim) \<longrightarrow> getObservableFunction (model sim) obs = Inr func \<longrightarrow>
      setObservable sim j obs = Inr (sim\<lparr>obs_functions := (obs_functions sim)[j := func]\<rparr>)) \<and>
   ((\<exists>sim'. setObservable sim j obs = Inr sim') \<longrightarrow> j \<le> length (obs_functions sim))"
  by (auto simp: setObservable_def Let_def split: sum.splits)

theorem setObservable_cases_witness:
  "setObservable example_simulator 3 0 = Inl ObservableIndexOutOfRange \<and>
   setObservable example_simulator 2 3 = Inl IncompatibleObservable \<and>
   setObservable example_simulator 2 2 =
     Inr (example_simulator\<lparr>obs_functions := [first_parameter, sum_parameters, failing_observable]\<rparr>) \<and>
   setObservable example_simulator 0 1 =
     Inr (example_simulator\<lparr>obs_functions := [sum_parameters, sum_parameters]\<rparr>)"
proof -
  have len: "length (obs_functions example_simulator) = 2"
    by (simp add: example_simulator_def)
  have g: "getObservableFunction (model example_simulator) 3 = Inl IncompatibleObservable"
    "getObservableFunction (model example_simulator) 2 = Inr failing_observable"
    "getObservableFunction (model example_simulator) 1 = Inr sum_parameters"
    by (simp_all add: example_simulator_def example_model_def)
  from setObservable_cases [of example_simulator 3 0] len
  have 1: "setObservable example_simulator 3 0 = Inl ObservableIndexOutOfRange" by simp
  from setObservable_cases [of example_simulator 2 3 IncompatibleObservable] len g(1)
  have 2: "setObservable example_simulator 2 3 = Inl IncompatibleObservable" by simp
  from setObservable_cases [of example_simulator 2 2 _ failing_observable] len g(2)
  have 3: "setObservable example_simulator 2 2 =
     Inr (example_simulator\<lparr>obs_functions := obs_functions example_simulator @ [failing_observable]\<rparr>)"
    by simp
  from setObservable_cases [of example_simulator 0 1 _ sum_parameters] len g(3)
  have 4: "setObservable example_simulator 0 1 =
     Inr (example_simulator\<lparr>obs_functions := (obs_functions example_simulator)[0 := sum_parameters]\<rparr>)"
    by simp
  from 1 2 3 4 show ?thesis by (simp add: example_simulator_def)
qed

section \<open>Properties of the simulator models and of the factory\<close>

lemma length_sample_dists: "length (fst (sample_dists sample ds r)) = length ds"
  by (induction ds arbitrary: r) (simp_all add: split_beta)

lemma length_sampleSubmodels:
  "(\<And>m r. m \<in> set ms \<Longrightarrow> length (fst (sampleParameters sample m r)) = get_num_parameters m) \<Longrightarrow>
     length (fst (sampleSubmodels sample ms r)) = sum_list (map get_num_parameters ms)"
  by (induction ms arbitrary: r) (simp_all add: split_beta)

lemma length_sampleParameters:
  "all_bound m \<Longrightarrow> length (fst (sampleParameters sample m r)) = get_num_parameters m"
proof (induction m arbitrary: r)
  case (Model names ds t st subs)
  have own: "length (fst (sample_dists sample ds r)) = length names"
    using Model.prems by (simp add: length_sample_dists)
  have subs: "length (fst (sampleSubmodels sample subs r')) = sum_list (map get_num_parameters subs)"
    for r'
  proof (rule length_sampleSubmodels)
    fix m r''
    assume "m \<in> set subs"
    with Model.IH [of m r''] Model.prems
    show "length (fst (sampleParameters sample m r'')) = get_num_parameters m"
      by (simp add: list_all_iff)
  qed
  show ?case
    using own subs by (simp add: split_beta)
qed

lemma find_name_None: "find_name name ns = None \<longleftrightarrow> name \<notin> to_lower ` set ns"
  by (induction ns) auto

lemma find_name_less: "find_name name ns = Some j \<Longrightarrow> j < length ns"
  by (induction ns arbitrary: j) (auto split: if_splits)

lemma setDistribution_fields:
  "model_names (fst (setDistribution f name d)) = model_names f"
  "comp_model (fst (setDistribution f name d)) = comp_model f"
  "submodels (fmodel (fst (setDistribution f name d))) = submodels (fmodel f)"
  "get_names (fmodel (fst (setDistribution f name d))) = get_names (fmodel f)"
  "getSubmodelType (fmodel (fst (setDistribution f name d))) = getSubmodelType (fmodel f)"
  "length (dists (fmodel (fst (setDistribution f name d)))) = length (dists (fmodel f))"
  by (simp_all add: setDistribution_def split: option.splits)

lemma setDistribution_remaining:
  "remaining_names f \<subseteq> to_lower ` set (model_names f) \<Longrightarrow>
     remaining_names (fst (setDistribution f name d)) = remaining_names f - {to_lower name}"
  by (auto simp: setDistribution_def find_name_None split: option.splits)

lemma addSubmodel_Inr:
  "addSubmodel f m = Inr f' \<Longrightarrow>
     comp_model f \<and> model_names f' = model_names f \<and> comp_model f' = comp_model f \<and>
     remaining_names f' = remaining_names f \<and>
     submodels (fmodel f') = submodels (fmodel f) @ [m] \<and>
     get_names (fmodel f') = get_names (fmodel f) \<and>
     getSubmodelType (fmodel f') = getSubmodelType (fmodel f) \<and>
     dists (fmodel f') = dists (fmodel f)"
  by (auto simp: addSubmodel_def split: if_splits)

lemma apply_calls_invariant:
  assumes "apply_calls f cs = Inr f'" and "remaining_names f \<subseteq> to_lower ` set (model_names f)"
  shows "remaining_names f' = remaining_names f - bound_names cs \<and>
     comp_model f' = comp_model f \<and>
     submodels (fmodel f') = submodels (fmodel f) @ added_submodels cs \<and>
     (added_submodels cs \<noteq> [] \<longrightarrow> comp_model f)"
  using assms
proof (induction cs arbitrary: f)
  case Nil
  then show ?case by simp
next
  case (Cons c cs)
  show ?case
  proof (cases c)
    case (SetDistribution name d)
    let ?f1 = "fst (setDistribution f name d)"
    from Cons.prems(1) SetDistribution have rest: "apply_calls ?f1 cs = Inr f'" by simp
    have r1: "remaining_names ?f1 = remaining_names f - {to_lower name}"
      using Cons.prems(2) by (rule setDistribution_remaining)
    then have sub: "remaining_names ?f1 \<subseteq> to_lower ` set (model_names ?f1)"
      using Cons.prems(2) by (auto simp: setDistribution_fields)
    from Cons.IH [OF rest sub] r1 SetDistribution show ?thesis
      by (auto simp: setDistribution_fields)
  next
    case (AddSubmodel m)
    from Cons.prems(1) AddSubmodel obtain f1 where f1: "addSubmodel f m = Inr f1"
      and rest: "apply_calls f1 cs = Inr f'" by (auto split: sum.splits)
    note a = addSubmodel_Inr [OF f1]
    have sub: "remaining_names f1 \<subseteq> to_lower ` set (model_names f1)"
      using a Cons.prems(2) by simp
    from Cons.IH [OF rest sub] a AddSubmodel show ?thesis by auto
  qed
qed

lemma makeFactory_fields:
  "remaining_names (makeFactory null m) = to_lower ` set (get_names m)"
  "model_names (makeFactory null m) = get_names m"
  "comp_model (makeFactory null m) = (getSubmodelType m \<noteq> None)"
  "submodels (fmodel (makeFactory null m)) = submodels m"
  by (simp_all add: makeFactory_def Let_def)

lemma makeFactory_all_bound:
  "dists m = [] \<Longrightarrow> submodels m = [] \<Longrightarrow> all_bound (fmodel (makeFactory null m))"
  by (cases m) (simp add: makeFactory_def Let_def resize_def)

lemma setDistribution_all_bound:
  "all_bound (fmodel f) \<Longrightarrow> all_bound (fmodel (fst (setDistribution f name d)))"
  by (cases "fmodel f") (simp add: setDistribution_def split: option.splits)

lemma addSubmodel_all_bound:
  "addSubmodel f m = Inr f' \<Longrightarrow> all_bound (fmodel f) \<Longrightarrow> all_bound m \<Longrightarrow> all_bound (fmodel f')"
  by (cases "fmodel f") (auto simp: addSubmodel_def split: if_splits)

lemma apply_calls_all_bound:
  "apply_calls f cs = Inr f' \<Longrightarrow> all_bound (fmodel f) \<Longrightarrow>
     list_all all_bound (added_submodels cs) \<Longrightarrow> all_bound (fmodel f')"
proof (induction cs arbitrary: f)
  case Nil
  then show ?case by simp
next
  case (Cons c cs)
  then show ?case
    by (cases c) (auto split: sum.splits intro: setDistribution_all_bound addSubmodel_all_bound)
qed

lemma getModel_all_bound:
  assumes "apply_calls (makeFactory null m) cs = Inr f" and "getModel f = Inr m'"
    and "dists m = []" and "submodels m = []" and "list_all all_bound (added_submodels cs)"
  shows "all_bound m'"
proof -
  have "all_bound (fmodel f)"
    using assms(1) makeFactory_all_bound [OF assms(3,4)] assms(5) by (rule apply_calls_all_bound)
  moreover have "m' = fmodel f"
    using assms(2) by (auto simp: getModel_def split: if_splits)
  ultimately show ?thesis by simp
qed

lemma to_lower_examples:
  "to_lower ''EF'' = ''ef''" "to_lower ''ef'' = ''ef''" "to_lower ''V'' = ''v''"
  "to_lower ''v'' = ''v''" "to_lower ''epsilon'' = ''epsilon''" "to_lower ''Gamma'' = ''gamma''"
  "to_lower ''GAMMA'' = ''gamma''"
  by (simp_all add: to_lower_def to_lower_char_def)

lemma calls_junction_without_v:
  "apply_calls (makeFactory 0 junction_class) [SetDistribution ''ef'' 7, AddSubmodel channel1]
     = Inr junction_without_v"
  by (simp add: makeFactory_def Let_def junction_class_def setDistribution_def addSubmodel_def
      channel1_def junction_without_v_def resize_def to_lower_examples rep2 insert_Diff_if)

lemma calls_junction_without_channel:
  "apply_calls (makeFactory 0 junction_class) [SetDistribution ''V'' 5, SetDistribution ''ef'' 0]
     = Inr junction_without_channel"
  by (simp add: makeFactory_def Let_def junction_class_def setDistribution_def addSubmodel_def
      junction_without_channel_def resize_def to_lower_examples rep2 insert_Diff_if)

lemma calls_junction_complete:
  "apply_calls (makeFactory 0 junction_class)
     [SetDistribution ''V'' 5, AddSubmodel channel1, SetDistribution ''ef'' 0]
     = Inr junction_complete"
  by (simp add: makeFactory_def Let_def junction_class_def setDistribution_def addSubmodel_def
      channel1_def junction_complete_def junction_def resize_def to_lower_examples rep2 insert_Diff_if)

lemma calls_channel_complete:
  "apply_calls (makeFactory 0 channel_class)
     [SetDistribution ''epsilon'' 1, SetDistribution ''GAMMA'' 2]
     = Inr channel_complete"
  by (simp add: makeFactory_def Let_def channel_class_def setDistribution_def addSubmodel_def
      channel1_def channel_complete_def resize_def to_lower_examples rep2 insert_Diff_if)

lemma sample_two_channels:
  "sampleParameters constant_sample two_channels 0 = ([1, 2, 3, 4], 4)"
  by (simp add: two_channels_def channel1_def channel2_def constant_sample_def)

lemma calls_two_channels:
  "apply_calls (makeFactory 0 sum_channels_class) [AddSubmodel channel1, AddSubmodel channel2]
     = Inr \<lparr>fmodel = two_channels, comp_model = True, remaining_names = {}, model_names = []\<rparr>"
  by (simp add: makeFactory_def Let_def sum_channels_class_def addSubmodel_def two_channels_def
      channel1_def channel2_def resize_def)

text \<open>
  C5. For every composite model, the number of parameters is the model's own declared count
  plus the sum of the numbers of parameters of its submodels, and the vector that
  \<open>sampleParameters\<close> returns has exactly that length; every declared parameter of the model
  and of its submodels has its distribution, as the factory ensures.
\<close>

theorem composite_num_parameters:
  assumes "getSubmodelType m \<noteq> None" and "all_bound m"
  shows "get_num_parameters m =
           length (get_names m) + sum_list (map get_num_parameters (submodels m)) \<and>
         length (fst (sampleParameters sample m r)) = get_num_parameters m"
proof
  show "get_num_parameters m =
           length (get_names m) + sum_list (map get_num_parameters (submodels m))"
    using assms(1) by (cases m) auto
  show "length (fst (sampleParameters sample m r)) = get_num_parameters m"
    using assms(2) by (rule length_sampleParameters)
qed

theorem composite_num_parameters_witness:
  "get_num_parameters two_channels = 0 + (2 + 2) \<and>
   length (fst (sampleParameters constant_sample two_channels 0)) = 4"
proof -
  have c: "getSubmodelType two_channels \<noteq> None" and b: "all_bound two_channels"
    by (simp_all add: two_channels_def channel1_def channel2_def)
  have n: "get_num_parameters channel1 = 2" "get_num_parameters channel2 = 2"
    by (simp_all add: channel1_def channel2_def)
  from composite_num_parameters [OF c b, of constant_sample 0] n
  show ?thesis by (simp add: two_channels_def)
qed

text \<open>
  C6. For a factory made by \<^verbatim>\<open>makeFactory\<close> and taken through any sequence of calls,
  \<^verbatim>\<open>getModel\<close> fails with the missing-distribution error if at least one declared name has
  no bound distribution; once every declared name is bound it returns the model, except
  that for a composite model it fails with the no-submodels error when no submodel has been
  added.
\<close>

theorem getModel_complete:
  assumes "apply_calls (makeFactory null m) cs = Inr f" and "submodels m = []"
  shows "((\<exists>n\<in>set (get_names m). to_lower n \<notin> bound_names cs) \<longrightarrow>
            getModel f = Inl MissingDistribution) \<and>
         ((\<forall>n\<in>set (get_names m). to_lower n \<in> bound_names cs) \<longrightarrow>
            (getSubmodelType m = None \<longrightarrow> getModel f = Inr (fmodel f)) \<and>
            (getSubmodelType m \<noteq> None \<longrightarrow> added_submodels cs = [] \<longrightarrow>
               getModel f = Inl NoSubmodels) \<and>
            (getSubmodelType m \<noteq> None \<longrightarrow> added_submodels cs \<noteq> [] \<longrightarrow>
               getModel f = Inr (fmodel f)))"
proof -
  have "remaining_names (makeFactory null m) \<subseteq> to_lower ` set (model_names (makeFactory null m))"
    by (simp add: makeFactory_fields)
  from apply_calls_invariant [OF assms(1) this]
  have rem: "remaining_names f = to_lower ` set (get_names m) - bound_names cs"
    and comp: "comp_model f = (getSubmodelType m \<noteq> None)"
    and subs: "submodels (fmodel f) = added_submodels cs"
    by (simp_all add: makeFactory_fields assms(2))
  show ?thesis
    by (auto simp: getModel_def rem comp subs)
qed

theorem getModel_complete_witness:
  "getModel junction_without_v = Inl MissingDistribution \<and>
   getModel channel_complete = Inr channel1 \<and>
   getModel junction_without_channel = Inl NoSubmodels \<and>
   getModel junction_complete = Inr junction"
proof -
  have 1: "getModel junction_without_v = Inl MissingDistribution"
    using getModel_complete [OF calls_junction_without_v]
    by (simp add: junction_class_def to_lower_examples)
  have 2: "getModel channel_complete = Inr (fmodel channel_complete)"
    using getModel_complete [OF calls_channel_complete]
    by (simp add: channel_class_def to_lower_examples)
  have 3: "getModel junction_without_channel = Inl NoSubmodels"
    using getModel_complete [OF calls_junction_without_channel]
    by (simp add: junction_class_def to_lower_examples)
  have 4: "getModel junction_complete = Inr (fmodel junction_complete)"
    using getModel_complete [OF calls_junction_complete]
    by (simp add: junction_class_def to_lower_examples)
  from 1 2 3 4 show ?thesis
    by (simp add: channel_complete_def junction_complete_def)
qed

section \<open>Properties of the binning styles\<close>

text \<open>
  C9. For the linear style, whose mask is the identity, and for the logarithmic style of
  base \<open>b > 1\<close>, whose mask is the logarithm to the base \<open>b\<close>, and for every \<open>x\<close> in the
  domain of the style (\<open>x > 0\<close> for the logarithmic one), \<open>invmask (mask x) = x\<close>; over the
  reals the equation is exact.
\<close>

theorem binstyle_roundtrip:
  "invmask (BinLinear n) (mask (BinLinear n) x) = x \<and>
   (1 < b \<longrightarrow> 0 < x \<longrightarrow> invmask (BinLog n b) (mask (BinLog n b) x) = x)"
  by (simp add: BinLinear_def BinLog_def)

theorem binstyle_roundtrip_witness:
  "invmask (BinLinear 2) (mask (BinLinear 2) (-3)) = -3 \<and>
   invmask (BinLog 2 10) (mask (BinLog 2 10) 100) = 100"
  using binstyle_roundtrip [of 2 "-3" 10] binstyle_roundtrip [of 2 100 10] by simp

end
